theory Spec2Isabelle
  imports Complex_Main "HOL-Library.Log_Nat"
begin

section \<open>PayEase payroll calculation: execution/validate\_calcs.py\<close>

text \<open>
  The embedding follows \<^verbatim>\<open>calculate_salary\<close> of \<^verbatim>\<open>execution/validate_calcs.py\<close> line
  by line, in two arithmetics.

  \<open>calculate_salary\<close> is the calculation in exact arithmetic. Python \<^verbatim>\<open>int\<close> values are
  \<^typ>\<open>int\<close>, \<^verbatim>\<open>float\<close> values are the rationals (\<^typ>\<open>rat\<close>) that the float operations
  approximate, the decimal rate constants are the decimal fractions written in the source,
  and where Python mixes \<^verbatim>\<open>int\<close> and \<^verbatim>\<open>float\<close> the model converts with \<^term>\<open>of_int\<close>.
  It carries the relations between the fields of one result: the balance equations, the
  two passes, the conservation of the monthly CTC, the bounds on deductions.

  \<open>calculate_salary_binary64\<close> is the calculation in the arithmetic of the interpreter:
  every operation that yields a \<^verbatim>\<open>float\<close> is rounded to the nearest double. The two
  agree on most inputs and differ by a unit in a rounded field where a product handed to
  \<^verbatim>\<open>round\<close> lies within a rounding error of a half: with an annual CTC of 329,640 and
  percentages 55 and 39, basic is 15,109 in doubles and 15,108 in exact arithmetic.
  Statements that fix a rounded field by the formula that computes it, or that say which
  values a field takes, are therefore made over \<open>calculate_salary_binary64\<close>.
\<close>

subsection \<open>Python built-ins used by the calculator\<close>

datatype py_error = KeyError

text \<open>
  \<^verbatim>\<open>round(x)\<close> with one argument returns an \<^verbatim>\<open>int\<close> and rounds halves to the even
  neighbour.
\<close>

definition py_round :: "rat \<Rightarrow> int" where
  "py_round x =
     (let f = \<lfloor>x\<rfloor>; d = x - of_int f
      in if d < 1 / 2 then f
         else if 1 / 2 < d then f + 1
         else if even f then f else f + 1)"

text \<open>\<^verbatim>\<open>d[k]\<close> raises \<^verbatim>\<open>KeyError\<close> on a missing key; \<^verbatim>\<open>d.get(k, default)\<close> does not.\<close>

definition dict_index :: "('k \<rightharpoonup> 'v) \<Rightarrow> 'k \<Rightarrow> py_error + 'v" where
  "dict_index d k = (case d k of None \<Rightarrow> Inl KeyError | Some v \<Rightarrow> Inr v)"

definition dict_get :: "('k \<rightharpoonup> 'v) \<Rightarrow> 'k \<Rightarrow> 'v \<Rightarrow> 'v" where
  "dict_get d k dflt = (case d k of None \<Rightarrow> dflt | Some v \<Rightarrow> v)"

subsection \<open>Statutory constants\<close>

definition PF_BASIC_CAP :: int where "PF_BASIC_CAP = 15000"
definition PF_EMPLOYEE_RATE :: rat where "PF_EMPLOYEE_RATE = 12 / 100"
definition PF_EMPLOYER_EPF_RATE :: rat where "PF_EMPLOYER_EPF_RATE = 367 / 10000"
definition PF_EMPLOYER_EPS_RATE :: rat where "PF_EMPLOYER_EPS_RATE = 833 / 10000"
definition PF_MAX_EMPLOYEE :: int where "PF_MAX_EMPLOYEE = 1800"

definition ESI_GROSS_LIMIT :: int where "ESI_GROSS_LIMIT = 21000"
definition ESI_EMPLOYEE_RATE :: rat where "ESI_EMPLOYEE_RATE = 75 / 10000"
definition ESI_EMPLOYER_RATE :: rat where "ESI_EMPLOYER_RATE = 325 / 10000"

text \<open>The Professional Tax table: one slab function per jurisdiction, in source order.\<close>

definition pt_karnataka :: "rat \<Rightarrow> int" where
  "pt_karnataka s = (if s > 15000 then 200 else 0)"

definition pt_maharashtra :: "rat \<Rightarrow> int" where
  "pt_maharashtra s = (if s > 10000 then 200 else (if s > 7500 then 175 else 0))"

definition pt_tamil_nadu :: "rat \<Rightarrow> int" where
  "pt_tamil_nadu s =
     (if s > 21000 then 208 else (if s > 15000 then 180 else (if s > 12500 then 115 else 0)))"

definition pt_gujarat :: "rat \<Rightarrow> int" where
  "pt_gujarat s = 0"

definition pt_delhi :: "rat \<Rightarrow> int" where
  "pt_delhi s = 0"

definition PT_RATES :: "string \<rightharpoonup> (rat \<Rightarrow> int)" where
  "PT_RATES = map_of
     [(''Karnataka'', pt_karnataka),
      (''Maharashtra'', pt_maharashtra),
      (''Tamil Nadu'', pt_tamil_nadu),
      (''Gujarat'', pt_gujarat),
      (''Delhi'', pt_delhi)]"

subsection \<open>The calculation engine in exact arithmetic\<close>

text \<open>The returned dictionary, one field per key.\<close>

record salary =
  basic :: int
  hra :: int
  special_allowance :: rat
  gross_salary :: rat
  employer_pf :: int
  employer_esi :: int
  employee_pf :: int
  employee_esi :: int
  professional_tax :: int
  tds :: int
  total_deductions :: int
  net_salary :: rat
  monthly_ctc :: rat

text \<open>
  The local variables carry the source's names with a trailing \<open>'\<close>, since the
  plain names are the record's fields. \<open>special_allowance1\<close> and \<open>gross_salary1\<close> are
  the first assignments to \<^verbatim>\<open>special_allowance\<close> and \<^verbatim>\<open>gross_salary\<close> (lines 56-57),
  \<open>special_allowance2\<close> the second one (line 61) before the floor of lines 62-63.
\<close>

definition calculate_salary ::
  "rat \<Rightarrow> rat \<Rightarrow> rat \<Rightarrow> bool \<Rightarrow> bool \<Rightarrow> string \<Rightarrow> py_error + salary" where
  "calculate_salary annual_ctc basic_pct hra_pct pf_enabled pt_enabled state =
     (let monthly_ctc' = annual_ctc / 12;
          basic' = py_round (monthly_ctc' * (basic_pct / 100));
          hra' = py_round (of_int basic' * (hra_pct / 100));
          pf_basic = min basic' PF_BASIC_CAP;
          employer_pf' =
            (if pf_enabled
             then py_round (of_int pf_basic * (PF_EMPLOYER_EPF_RATE + PF_EMPLOYER_EPS_RATE))
             else 0);
          preliminary_gross = basic' + hra';
          esi_applicable = (preliminary_gross \<le> ESI_GROSS_LIMIT);
          special_allowance1 = monthly_ctc' - of_int basic' - of_int hra' - of_int employer_pf';
          gross_salary1 = of_int basic' + of_int hra' + special_allowance1;
          employer_esi' =
            (if esi_applicable then py_round (gross_salary1 * ESI_EMPLOYER_RATE) else 0);
          special_allowance2 =
            monthly_ctc' - of_int basic' - of_int hra' - of_int employer_pf' - of_int employer_esi';
          special_allowance' = (if special_allowance2 < 0 then 0 else special_allowance2);
          gross_salary' = of_int basic' + of_int hra' + special_allowance';
          employee_pf' =
            (if pf_enabled
             then min (py_round (of_int pf_basic * PF_EMPLOYEE_RATE)) PF_MAX_EMPLOYEE
             else 0);
          employee_esi' =
            (if esi_applicable then py_round (gross_salary' * ESI_EMPLOYEE_RATE) else 0)
      in case dict_index PT_RATES ''Karnataka'' of
           Inl e \<Rightarrow> Inl e
         | Inr karnataka_fn \<Rightarrow>
             (let pt_fn = dict_get PT_RATES state karnataka_fn;
                  professional_tax' = (if pt_enabled then pt_fn gross_salary' else 0);
                  tds' = 0;
                  total_deductions' = employee_pf' + employee_esi' + professional_tax' + tds';
                  net_salary' = gross_salary' - of_int total_deductions'
              in Inr \<lparr>basic = basic', hra = hra', special_allowance = special_allowance',
                      gross_salary = gross_salary', employer_pf = employer_pf',
                      employer_esi = employer_esi', employee_pf = employee_pf',
                      employee_esi = employee_esi', professional_tax = professional_tax',
                      tds = tds', total_deductions = total_deductions',
                      net_salary = net_salary', monthly_ctc = monthly_ctc'\<rparr>))"

subsection \<open>Binary64 arithmetic\<close>

text \<open>
  A finite double is modelled as the rational number it denotes. For a non-zero \<open>x\<close>,
  \<open>exponent x\<close> is its binary exponent, the \<open>e\<close> with 2 to the \<open>e\<close> at most \<open>|x|\<close> and
  \<open>|x|\<close> below 2 to the \<open>e + 1\<close>; it is found from the bit lengths of the numerator and the
  denominator of \<open>|x|\<close>. \<open>double x\<close> is the double nearest to \<open>x\<close>: \<open>x\<close> is rounded to a
  multiple of the unit in the last place, 52 binary places below its exponent, a tie going
  to the even multiple. Below 2 to the -1022 the unit stays at 2 to the -1074, as for
  subnormal doubles. The exponent is not bounded above: there is no infinity and no NaN
  in the model, which follows the interpreter as long as no float of the calculation
  reaches 2 to the 1024 (about 1.8e308).
\<close>

definition exponent :: "rat \<Rightarrow> int" where
  "exponent x =
     (let (p, q) = quotient_of \<bar>x\<bar>;
          e = bitlen p - bitlen q
      in if 2 powi e \<le> \<bar>x\<bar> then e else e - 1)"

definition double :: "rat \<Rightarrow> rat" where
  "double x =
     (if x = 0 then 0
      else let ulp = 2 powi (max (exponent x) (- 1022) - 52)
           in of_int (py_round (x / ulp)) * ulp)"

text \<open>
  A Python number is an \<^verbatim>\<open>int\<close>, unbounded and exact, or a \<^verbatim>\<open>float\<close>. \<open>num_value\<close> is
  the value of a number and \<open>py_float\<close> is \<^verbatim>\<open>float(x)\<close>, the nearest double to an
  \<^verbatim>\<open>int\<close>. A decimal literal such as \<^verbatim>\<open>0.0075\<close> denotes the double nearest to the
  decimal fraction. \<^verbatim>\<open>+\<close>, \<^verbatim>\<open>-\<close> and \<^verbatim>\<open>*\<close> are exact on two \<^verbatim>\<open>int\<close>s; with a
  \<^verbatim>\<open>float\<close> operand both operands are taken as floats and the exact result is rounded
  to the nearest double. \<^verbatim>\<open>/\<close> always yields a \<^verbatim>\<open>float\<close>, the double nearest to the
  quotient. \<^verbatim>\<open>round\<close> of a \<^verbatim>\<open>float\<close> is \<^const>\<open>py_round\<close> of its value.
\<close>

datatype pynum = PyInt int | PyFloat rat

definition num_value :: "pynum \<Rightarrow> rat" where
  "num_value x = (case x of PyInt k \<Rightarrow> of_int k | PyFloat r \<Rightarrow> r)"

definition py_float :: "pynum \<Rightarrow> rat" where
  "py_float x = (case x of PyInt k \<Rightarrow> double (of_int k) | PyFloat r \<Rightarrow> r)"

definition py_literal :: "rat \<Rightarrow> pynum" where
  "py_literal d = PyFloat (double d)"

definition py_add :: "pynum \<Rightarrow> pynum \<Rightarrow> pynum" where
  "py_add x y =
     (case (x, y) of
        (PyInt i, PyInt j) \<Rightarrow> PyInt (i + j)
      | _ \<Rightarrow> PyFloat (double (py_float x + py_float y)))"

definition py_sub :: "pynum \<Rightarrow> pynum \<Rightarrow> pynum" where
  "py_sub x y =
     (case (x, y) of
        (PyInt i, PyInt j) \<Rightarrow> PyInt (i - j)
      | _ \<Rightarrow> PyFloat (double (py_float x - py_float y)))"

definition py_mul :: "pynum \<Rightarrow> pynum \<Rightarrow> pynum" where
  "py_mul x y =
     (case (x, y) of
        (PyInt i, PyInt j) \<Rightarrow> PyInt (i * j)
      | _ \<Rightarrow> PyFloat (double (py_float x * py_float y)))"

definition py_truediv :: "pynum \<Rightarrow> pynum \<Rightarrow> pynum" where
  "py_truediv x y =
     (case (x, y) of
        (PyInt i, PyInt j) \<Rightarrow> PyFloat (double (of_int i / of_int j))
      | _ \<Rightarrow> PyFloat (double (py_float x / py_float y)))"

definition py_round_num :: "pynum \<Rightarrow> int" where
  "py_round_num x = (case x of PyInt k \<Rightarrow> k | PyFloat r \<Rightarrow> py_round r)"

subsection \<open>The calculation engine in binary64 arithmetic\<close>

text \<open>
  The same function once more, statement by statement, with the arithmetic of the
  interpreter. The arguments are Python numbers: \<^verbatim>\<open>main\<close> passes \<^verbatim>\<open>int\<close>s, the
  signature announces \<^verbatim>\<open>float\<close>s. The rate constants are the literals of the source,
  written as their decimal fractions under \<^const>\<open>py_literal\<close>. When the special
  allowance is floored it is the \<^verbatim>\<open>int\<close> 0, and the gross and net salary that follow
  are \<^verbatim>\<open>int\<close>s; otherwise they are \<^verbatim>\<open>float\<close>s. The returned record holds the values.
\<close>

definition calculate_salary_binary64 ::
  "pynum \<Rightarrow> pynum \<Rightarrow> pynum \<Rightarrow> bool \<Rightarrow> bool \<Rightarrow> string \<Rightarrow> py_error + salary" where
  "calculate_salary_binary64 annual_ctc basic_pct hra_pct pf_enabled pt_enabled state =
     (let monthly_ctc' = py_truediv annual_ctc (PyInt 12);
          basic' = py_round_num (py_mul monthly_ctc' (py_truediv basic_pct (PyInt 100)));
          hra' = py_round_num (py_mul (PyInt basic') (py_truediv hra_pct (PyInt 100)));
          pf_basic = min basic' PF_BASIC_CAP;
          employer_pf' =
            (if pf_enabled
             then py_round_num
                    (py_mul (PyInt pf_basic)
                       (py_add (py_literal PF_EMPLOYER_EPF_RATE)
                               (py_literal PF_EMPLOYER_EPS_RATE)))
             else 0);
          preliminary_gross = basic' + hra';
          esi_applicable = (preliminary_gross \<le> ESI_GROSS_LIMIT);
          special_allowance1 =
            py_sub (py_sub (py_sub monthly_ctc' (PyInt basic')) (PyInt hra'))
                   (PyInt employer_pf');
          gross_salary1 = py_add (py_add (PyInt basic') (PyInt hra')) special_allowance1;
          employer_esi' =
            (if esi_applicable
             then py_round_num (py_mul gross_salary1 (py_literal ESI_EMPLOYER_RATE)) else 0);
          special_allowance2 =
            py_sub (py_sub (py_sub (py_sub monthly_ctc' (PyInt basic')) (PyInt hra'))
                      (PyInt employer_pf')) (PyInt employer_esi');
          special_allowance' =
            (if num_value special_allowance2 < 0 then PyInt 0 else special_allowance2);
          gross_salary' = py_add (py_add (PyInt basic') (PyInt hra')) special_allowance';
          employee_pf' =
            (if pf_enabled
             then min (py_round_num (py_mul (PyInt pf_basic) (py_literal PF_EMPLOYEE_RATE)))
                      PF_MAX_EMPLOYEE
             else 0);
          employee_esi' =
            (if esi_applicable
             then py_round_num (py_mul gross_salary' (py_literal ESI_EMPLOYEE_RATE)) else 0)
      in case dict_index PT_RATES ''Karnataka'' of
           Inl e \<Rightarrow> Inl e
         | Inr karnataka_fn \<Rightarrow>
             (let pt_fn = dict_get PT_RATES state karnataka_fn;
                  professional_tax' =
                    (if pt_enabled then pt_fn (num_value gross_salary') else 0);
                  tds' = 0;
                  total_deductions' = employee_pf' + employee_esi' + professional_tax' + tds';
                  net_salary' = py_sub gross_salary' (PyInt total_deductions')
              in Inr \<lparr>basic = basic', hra = hra',
                      special_allowance = num_value special_allowance',
                      gross_salary = num_value gross_salary', employer_pf = employer_pf',
                      employer_esi = employer_esi', employee_pf = employee_pf',
                      employee_esi = employee_esi', professional_tax = professional_tax',
                      tds = tds', total_deductions = total_deductions',
                      net_salary = num_value net_salary',
                      monthly_ctc = num_value monthly_ctc'\<rparr>))"

section \<open>Properties\<close>

subsection \<open>Rounding\<close>

text \<open>
  \<^const>\<open>py_round\<close> stays within half a unit of its argument, is monotone, and
  leaves whole numbers alone.
\<close>

lemma py_round_floor_le: "\<lfloor>x\<rfloor> \<le> py_round x"
  by (simp add: py_round_def Let_def)

lemma py_round_le_floor_Suc: "py_round x \<le> \<lfloor>x\<rfloor> + 1"
  by (simp add: py_round_def Let_def)

lemma py_round_of_int: "py_round (of_int n) = n"
  by (simp add: py_round_def Let_def)

lemma py_round_upper: "of_int (py_round x) \<le> x + 1 / 2"
  using of_int_floor_le [of x]
  unfolding py_round_def Let_def by (auto split: if_splits simp del: of_int_floor_le)

lemma py_round_lower: "x - 1 / 2 \<le> of_int (py_round x)"
  using floor_correct [of x]
  unfolding py_round_def Let_def by (auto split: if_splits)

lemma py_round_mono:
  assumes "x \<le> y"
  shows "py_round x \<le> py_round y"
proof (cases "\<lfloor>x\<rfloor> = \<lfloor>y\<rfloor>")
  case True
  with assms show ?thesis
    by (auto simp add: py_round_def Let_def)
next
  case False
  with assms have "\<lfloor>x\<rfloor> + 1 \<le> \<lfloor>y\<rfloor>"
    using floor_mono [of x y] by linarith
  with py_round_le_floor_Suc [of x] py_round_floor_le [of y] show ?thesis
    by linarith
qed

lemma py_round_nonneg: "0 \<le> x \<Longrightarrow> 0 \<le> py_round x"
  using py_round_mono [of 0 x] py_round_of_int [of 0] by simp


lemma py_round_diff_le: "rat_of_int (py_round y) - of_int (py_round x) \<le> y - x + 1"
  using py_round_upper [of y] py_round_lower [of x] by linarith

lemma py_round_neg_half: "py_round (- (1 / 2)) = 0"
  by code_simp

subsection \<open>Rounding to the nearest double\<close>

text \<open>
  \<^const>\<open>exponent\<close> is the binary exponent. \<^const>\<open>double\<close> keeps whole numbers whole,
  leaves every number of the form \<open>n\<close> times a power of two with \<open>|n|\<close> below 2 to the 53
  unchanged, and is idempotent: its results are doubles.
\<close>

lemma bitlen_powi_bounds:
  assumes "0 < p"
  shows "(2::rat) powi (bitlen p - 1) \<le> of_int p" and "of_int p < (2::rat) powi bitlen p"
proof -
  from bitlen_bounds [OF assms]
  have a: "2 ^ nat (bitlen p - 1) \<le> p" and b: "p < 2 ^ nat (bitlen p)" by auto
  have ge1: "1 \<le> bitlen p"
    using assms bitlen_eq_zero_iff [of p] bitlen_nonneg [of p] by linarith
  have "(2::rat) powi (bitlen p - 1) = of_int (2 ^ nat (bitlen p - 1))"
    using ge1 by (simp add: power_int_def)
  also have "\<dots> \<le> of_int p" using a by (simp only: of_int_le_iff)
  finally show "(2::rat) powi (bitlen p - 1) \<le> of_int p" .
  have "rat_of_int p < of_int (2 ^ nat (bitlen p))" using b by (simp only: of_int_less_iff)
  also have "\<dots> = 2 powi bitlen p"
    using ge1 by (simp add: power_int_def)
  finally show "of_int p < (2::rat) powi bitlen p" .
qed

lemma exponent_bounds:
  assumes "x \<noteq> 0"
  shows "2 powi exponent x \<le> \<bar>x\<bar>" and "\<bar>x\<bar> < 2 powi (exponent x + 1)"
proof -
  obtain p q where pq: "quotient_of \<bar>x\<bar> = (p, q)" by (cases "quotient_of \<bar>x\<bar>")
  then have q: "0 < q" by (rule quotient_of_denom_pos)
  from pq have x: "\<bar>x\<bar> = of_int p / of_int q" by (rule quotient_of_div)
  have p: "0 < p"
  proof -
    from assms have "0 < \<bar>x\<bar>" by simp
    with x q show ?thesis by (simp add: zero_less_divide_iff)
  qed
  define e where "e = bitlen p - bitlen q"
  note P = bitlen_powi_bounds [OF p] and Q = bitlen_powi_bounds [OF q]
  have pos: "0 < (2::rat) powi n" for n by (simp add: zero_less_power_int)
  have "(2::rat) powi (e - 1) = 2 powi (bitlen p - 1) / 2 powi bitlen q"
    by (simp add: e_def power_int_diff [symmetric] algebra_simps)
  also have "\<dots> \<le> of_int p / of_int q"
    using P(1) Q(2) p q pos by (intro frac_le) auto
  finally have lo: "2 powi (e - 1) \<le> \<bar>x\<bar>" by (simp add: x)
  have "rat_of_int p / of_int q < 2 powi bitlen p / 2 powi (bitlen q - 1)"
    using P(2) Q(1) p pos by (intro frac_less) auto
  also have "\<dots> = 2 powi (e + 1)"
    by (simp add: e_def power_int_diff [symmetric] algebra_simps)
  finally have hi: "\<bar>x\<bar> < 2 powi (e + 1)" by (simp add: x)
  have ex: "exponent x = (if 2 powi e \<le> \<bar>x\<bar> then e else e - 1)"
    by (simp add: exponent_def pq e_def Let_def)
  show "2 powi exponent x \<le> \<bar>x\<bar>" using lo by (simp add: ex)
  show "\<bar>x\<bar> < 2 powi (exponent x + 1)" using hi by (auto simp add: ex)
qed

lemma exponent_less:
  assumes "x \<noteq> 0" and "\<bar>x\<bar> < 2 powi m"
  shows "exponent x < m"
proof (rule ccontr)
  assume "\<not> exponent x < m"
  then have "(2::rat) powi m \<le> 2 powi exponent x"
    by (intro power_int_increasing) auto
  with exponent_bounds(1) [OF assms(1)] assms(2) show False by linarith
qed

lemma exponent_ge:
  assumes "x \<noteq> 0" and "2 powi m \<le> \<bar>x\<bar>"
  shows "m \<le> exponent x"
proof (rule ccontr)
  assume "\<not> m \<le> exponent x"
  then have "(2::rat) powi (exponent x + 1) \<le> 2 powi m"
    by (intro power_int_increasing) auto
  with exponent_bounds(2) [OF assms(1)] assms(2) show False by linarith
qed


lemma powi_nonneg_of_int: "0 \<le> k \<Longrightarrow> (2::rat) powi k = of_int (2 ^ nat k)"
  by (simp add: power_int_def)

lemma double_Ints:
  assumes "x \<in> \<int>"
  shows "double x \<in> \<int>"
proof (cases "x = 0")
  case True
  then show ?thesis by (simp add: double_def)
next
  case False
  define k where "k = max (exponent x) (- 1022) - 52"
  have d: "double x = of_int (py_round (x / 2 powi k)) * 2 powi k"
    using False by (simp add: double_def k_def Let_def)
  show ?thesis
  proof (cases "0 \<le> k")
    case True
    then show ?thesis
      by (simp add: d powi_nonneg_of_int del: of_int_power)
  next
    case False
    from assms obtain i where i: "x = of_int i" by (auto elim: Ints_cases)
    have "x / 2 powi k = x * 2 powi (- k)"
      by (simp add: power_int_minus field_simps)
    also have "\<dots> = of_int (i * 2 ^ nat (- k))"
      using False by (simp add: i powi_nonneg_of_int)
    finally have "py_round (x / 2 powi k) = i * 2 ^ nat (- k)"
      by (simp only: py_round_of_int)
    then have "double x = of_int i * (2 powi (- k) * 2 powi k)"
      using False by (simp add: d powi_nonneg_of_int)
    also have "2 powi (- k) * 2 powi k = (1::rat)"
      by (simp add: power_int_minus)
    finally show ?thesis by (simp add: i)
  qed
qed

lemma double_scaled:
  assumes n: "\<bar>n\<bar> < 2 ^ 53" and j: "- 1074 \<le> j"
  shows "double (of_int n * 2 powi j) = of_int n * 2 powi j"
proof (cases "n = 0")
  case True
  then show ?thesis by (simp add: double_def)
next
  case False
  define x :: rat where "x = of_int n * 2 powi j"
  have pos: "0 < (2::rat) powi m" for m by (simp add: zero_less_power_int)
  have x0: "x \<noteq> 0" using False pos [of j] by (simp add: x_def)
  have "rat_of_int \<bar>n\<bar> < of_int (2 ^ 53)" using n by (simp only: of_int_less_iff)
  then have "\<bar>x\<bar> < 2 ^ 53 * 2 powi j"
    using pos [of j] by (simp add: x_def abs_mult)
  also have "\<dots> = 2 powi (53 + j)"
    by (simp add: power_int_add)
  finally have "exponent x < 53 + j" by (rule exponent_less [OF x0])
  define k where "k = max (exponent x) (- 1022) - 52"
  have kj: "k \<le> j" using \<open>exponent x < 53 + j\<close> j by (simp add: k_def)
  have d: "double x = of_int (py_round (x / 2 powi k)) * 2 powi k"
    using x0 by (simp add: double_def k_def Let_def)
  have "x / 2 powi k = of_int n * 2 powi (j - k)"
    by (simp add: x_def power_int_diff)
  also have "\<dots> = of_int (n * 2 ^ nat (j - k))"
    using kj by (simp add: powi_nonneg_of_int)
  finally have q: "x / 2 powi k = of_int (n * 2 ^ nat (j - k))" .
  have "double x = x / 2 powi k * 2 powi k"
    unfolding d q py_round_of_int ..
  also have "\<dots> = x" using pos [of k] by simp
  finally show ?thesis by (simp add: x_def)
qed

lemma double_form:
  assumes "x \<noteq> 0"
  obtains n j where "double x = of_int n * 2 powi j" and "\<bar>n\<bar> \<le> 2 ^ 53" and "- 1074 \<le> j"
proof -
  define k where "k = max (exponent x) (- 1022) - 52"
  define n where "n = py_round (x / 2 powi k)"
  have pos: "0 < (2::rat) powi m" for m by (simp add: zero_less_power_int)
  have d: "double x = of_int n * 2 powi k"
    using assms by (simp add: double_def k_def n_def Let_def)
  have "\<bar>x\<bar> < 2 powi (exponent x + 1)" by (rule exponent_bounds(2) [OF assms])
  also have "\<dots> \<le> 2 powi (53 + k)"
    by (intro power_int_increasing) (auto simp add: k_def)
  also have "\<dots> = 2 ^ 53 * 2 powi k" by (simp add: power_int_add)
  finally have "\<bar>x\<bar> / 2 powi k < 2 ^ 53"
    using pos [of k] by (simp add: field_simps)
  then have b: "\<bar>x / 2 powi k\<bar> < 2 ^ 53"
    using pos [of k] by (simp add: abs_divide)
  have c: "rat_of_int (2 ^ 53) = 2 ^ 53" "rat_of_int (- (2 ^ 53)) = - (2 ^ 53)"
    by simp_all
  have "x / 2 powi k \<le> of_int (2 ^ 53)" "rat_of_int (- (2 ^ 53)) \<le> x / 2 powi k"
    unfolding c using b by linarith+
  then have "py_round (x / 2 powi k) \<le> py_round (of_int (2 ^ 53))"
    and "py_round (of_int (- (2 ^ 53))) \<le> py_round (x / 2 powi k)"
    by (simp_all only: py_round_mono)
  then have "\<bar>n\<bar> \<le> 2 ^ 53"
    unfolding py_round_of_int n_def by simp
  moreover have "- 1074 \<le> k" by (simp add: k_def)
  ultimately show ?thesis using d that by blast
qed

lemma double_idem: "double (double x) = double x"
proof (cases "x = 0")
  case True
  then show ?thesis by (simp add: double_def)
next
  case False
  then obtain n j where d: "double x = of_int n * 2 powi j"
    and n: "\<bar>n\<bar> \<le> 2 ^ 53" and j: "- 1074 \<le> j"
    by (rule double_form)
  show ?thesis
  proof (cases "\<bar>n\<bar> < 2 ^ 53")
    case True
    then show ?thesis unfolding d using j by (rule double_scaled)
  next
    case False
    with n have "n = 2 ^ 53 \<or> n = - (2 ^ 53)" by linarith
    then have "rat_of_int n = of_int (n div 2) * 2" and "\<bar>n div 2\<bar> < 2 ^ 53"
      by auto
    then have e: "rat_of_int n * 2 powi j = of_int (n div 2) * 2 powi (j + 1)"
      by (simp add: power_int_add)
    show ?thesis unfolding d e
      using \<open>\<bar>n div 2\<bar> < 2 ^ 53\<close> j by (intro double_scaled) auto
  qed
qed

lemma double_of_int:
  assumes "\<bar>k\<bar> \<le> 2 ^ 53"
  shows "double (of_int k) = of_int k"
proof (cases "\<bar>k\<bar> < 2 ^ 53")
  case True
  from double_scaled [OF True, of 0] show ?thesis by simp
next
  case False
  with assms have "k = 2 ^ 53 \<or> k = - (2 ^ 53)" by linarith
  then have "rat_of_int k = of_int (k div 2) * 2 powi 1" and "\<bar>k div 2\<bar> < 2 ^ 53"
    by auto
  with double_scaled [of "k div 2" 1] show ?thesis by simp
qed

subsection \<open>The calculator always returns\<close>

text \<open>
  The only lookup that could raise, \<^verbatim>\<open>PT_RATES["Karnataka"]\<close>, finds its key, so
  \<^const>\<open>calculate_salary\<close> returns a dictionary for every input.
\<close>

lemma dict_index_Karnataka: "dict_index PT_RATES ''Karnataka'' = Inr pt_karnataka"
  by (simp add: dict_index_def PT_RATES_def)

lemma calculate_salary_returns: "\<exists>out. calculate_salary a bp hp pf pt st = Inr out"
  by (simp add: calculate_salary_def dict_index_Karnataka Let_def)

text \<open>Each field of the returned dictionary, as the source computes it.\<close>

lemma calculate_salary_fields:
  assumes "calculate_salary a bp hp pf pt st = Inr out"
  shows "monthly_ctc out = a / 12"
    and "basic out = py_round (a / 12 * (bp / 100))"
    and "hra out = py_round (of_int (basic out) * (hp / 100))"
    and "employer_pf out =
          (if pf then py_round (of_int (min (basic out) PF_BASIC_CAP)
                                * (PF_EMPLOYER_EPF_RATE + PF_EMPLOYER_EPS_RATE))
           else 0)"
    and "employer_esi out =
          (if basic out + hra out \<le> ESI_GROSS_LIMIT
           then py_round ((of_int (basic out) + of_int (hra out)
                           + (a / 12 - of_int (basic out) - of_int (hra out)
                              - of_int (employer_pf out))) * ESI_EMPLOYER_RATE)
           else 0)"
    and "special_allowance out =
          (if a / 12 - of_int (basic out) - of_int (hra out) - of_int (employer_pf out)
                - of_int (employer_esi out) < 0
           then 0
           else a / 12 - of_int (basic out) - of_int (hra out) - of_int (employer_pf out)
                - of_int (employer_esi out))"
    and "gross_salary out = of_int (basic out) + of_int (hra out) + special_allowance out"
    and "employee_pf out =
          (if pf then min (py_round (of_int (min (basic out) PF_BASIC_CAP) * PF_EMPLOYEE_RATE))
                          PF_MAX_EMPLOYEE
           else 0)"
    and "employee_esi out =
          (if basic out + hra out \<le> ESI_GROSS_LIMIT
           then py_round (gross_salary out * ESI_EMPLOYEE_RATE) else 0)"
    and "professional_tax out =
          (if pt then dict_get PT_RATES st pt_karnataka (gross_salary out) else 0)"
    and "tds out = 0"
    and "total_deductions out =
          employee_pf out + employee_esi out + professional_tax out + tds out"
    and "net_salary out = gross_salary out - of_int (total_deductions out)"
  using assms
  by (auto simp add: calculate_salary_def Let_def dict_index_Karnataka)

subsection \<open>The binary64 calculator\<close>

text \<open>
  How the operations of Python act on the operands that occur in the calculation, and
  each field of the dictionary that \<^const>\<open>calculate_salary_binary64\<close> returns.
\<close>

lemma py_truediv_float: "py_truediv x y = PyFloat (num_value (py_truediv x y))"
  by (simp add: py_truediv_def num_value_def split: pynum.splits)

lemma py_sub_float_int:
  "py_sub (PyFloat r) (PyInt k) = PyFloat (double (r - double (of_int k)))"
  by (simp add: py_sub_def py_float_def)

lemma py_add_int_float:
  "py_add (PyInt k) (PyFloat r) = PyFloat (double (double (of_int k) + r))"
  by (simp add: py_add_def py_float_def)

lemma py_add_int_int: "py_add (PyInt i) (PyInt j) = PyInt (i + j)"
  by (simp add: py_add_def)

lemma py_sub_int_int: "py_sub (PyInt i) (PyInt j) = PyInt (i - j)"
  by (simp add: py_sub_def)

lemma py_mul_literal:
  "py_round_num (py_mul x (py_literal c)) = py_round (double (py_float x * double c))"
  by (simp add: py_mul_def py_literal_def py_round_num_def py_float_def split: pynum.splits)

lemma calculate_salary_binary64_returns:
  "\<exists>out. calculate_salary_binary64 a bp hp pf pt st = Inr out"
  by (simp add: calculate_salary_binary64_def dict_index_Karnataka Let_def)

lemma calculate_salary_binary64_fields:
  assumes "calculate_salary_binary64 a bp hp pf pt st = Inr out"
  defines "s2 \<equiv> py_sub (py_sub (py_sub (py_sub (PyFloat (monthly_ctc out)) (PyInt (basic out)))
                                 (PyInt (hra out))) (PyInt (employer_pf out)))
                 (PyInt (employer_esi out))"
  defines "g \<equiv> py_add (PyInt (basic out + hra out)) (if num_value s2 < 0 then PyInt 0 else s2)"
  shows "PyFloat (monthly_ctc out) = py_truediv a (PyInt 12)"
    and "basic out = py_round_num (py_mul (py_truediv a (PyInt 12)) (py_truediv bp (PyInt 100)))"
    and "hra out = py_round_num (py_mul (PyInt (basic out)) (py_truediv hp (PyInt 100)))"
    and "employer_pf out =
          (if pf then py_round_num
                        (py_mul (PyInt (min (basic out) PF_BASIC_CAP))
                           (py_add (py_literal PF_EMPLOYER_EPF_RATE)
                                   (py_literal PF_EMPLOYER_EPS_RATE)))
           else 0)"
    and "employer_esi out =
          (if basic out + hra out \<le> ESI_GROSS_LIMIT
           then py_round_num
                  (py_mul (py_add (PyInt (basic out + hra out))
                             (py_sub (py_sub (py_sub (PyFloat (monthly_ctc out))
                                                (PyInt (basic out))) (PyInt (hra out)))
                                (PyInt (employer_pf out))))
                     (py_literal ESI_EMPLOYER_RATE))
           else 0)"
    and "special_allowance out = (if num_value s2 < 0 then 0 else num_value s2)"
    and "gross_salary out = num_value g"
    and "employee_pf out =
          (if pf then min (py_round_num (py_mul (PyInt (min (basic out) PF_BASIC_CAP))
                                           (py_literal PF_EMPLOYEE_RATE)))
                          PF_MAX_EMPLOYEE
           else 0)"
    and "employee_esi out =
          (if basic out + hra out \<le> ESI_GROSS_LIMIT
           then py_round_num (py_mul g (py_literal ESI_EMPLOYEE_RATE)) else 0)"
    and "professional_tax out =
          (if pt then dict_get PT_RATES st pt_karnataka (gross_salary out) else 0)"
    and "tds out = 0"
    and "total_deductions out =
          employee_pf out + employee_esi out + professional_tax out + tds out"
    and "net_salary out = num_value (py_sub g (PyInt (total_deductions out)))"
  using assms(1) py_truediv_float [of a "PyInt 12"] unfolding s2_def g_def
  by (auto simp add: calculate_salary_binary64_def Let_def dict_index_Karnataka
      py_add_int_int num_value_def)

lemma py_float_gross:
  "py_float (py_add (PyInt k) (if num_value (PyFloat t) < 0 then PyInt 0 else PyFloat t))
     = double (num_value (py_add (PyInt k) (if num_value (PyFloat t) < 0 then PyInt 0 else PyFloat t)))"
  by (simp add: py_add_int_int py_add_int_float py_float_def num_value_def double_idem)

subsection \<open>Worked inputs\<close>

text \<open>
  The returned dictionary at a few inputs, computed from the definitions. The first is
  the first entry of \<^verbatim>\<open>TEST_CASES\<close>, called as \<^verbatim>\<open>main\<close> calls it, with every
  default argument.
\<close>

lemma calculate_salary_300000:
  "calculate_salary 300000 40 50 True True ''Karnataka'' =
     Inr \<lparr>basic = 10000, hra = 5000, special_allowance = 8026, gross_salary = 23026,
          employer_pf = 1200, employer_esi = 774, employee_pf = 1200, employee_esi = 173,
          professional_tax = 200, tds = 0, total_deductions = 1573, net_salary = 21453,
          monthly_ctc = 25000\<rparr>"
  by code_simp

lemma calculate_salary_600000_off:
  "calculate_salary 600000 40 50 False False ''Karnataka'' =
     Inr \<lparr>basic = 20000, hra = 10000, special_allowance = 20000,
          gross_salary = 50000, employer_pf = 0, employer_esi = 0,
          employee_pf = 0, employee_esi = 0, professional_tax = 0, tds = 0,
          total_deductions = 0, net_salary = 50000, monthly_ctc = 50000\<rparr>"
  by code_simp

lemma calculate_salary_3000000:
  "calculate_salary 3000000 40 50 True True ''Karnataka'' =
     Inr \<lparr>basic = 100000, hra = 50000, special_allowance = 98200,
          gross_salary = 248200, employer_pf = 1800, employer_esi = 0,
          employee_pf = 1800, employee_esi = 0, professional_tax = 200, tds = 0,
          total_deductions = 2000, net_salary = 246200, monthly_ctc = 250000\<rparr>"
  by code_simp

text \<open>
  Two neighbouring inputs around a rounding step of basic pay, and the second entry of
  \<^verbatim>\<open>TEST_CASES\<close>.
\<close>

lemma calculate_salary_300134:
  "calculate_salary 300134 40 50 True True ''Karnataka'' =
     Inr \<lparr>basic = 10004, hra = 5002, special_allowance = 48187 / 6,
          gross_salary = 138223 / 6, employer_pf = 1200, employer_esi = 774,
          employee_pf = 1200, employee_esi = 173, professional_tax = 200, tds = 0,
          total_deductions = 1573, net_salary = 128785 / 6, monthly_ctc = 150067 / 6\<rparr>"
  by code_simp

lemma calculate_salary_300136:
  "calculate_salary 300136 40 50 True True ''Karnataka'' =
     Inr \<lparr>basic = 10005, hra = 5002, special_allowance = 24088 / 3,
          gross_salary = 69109 / 3, employer_pf = 1201, employer_esi = 774,
          employee_pf = 1201, employee_esi = 173, professional_tax = 200, tds = 0,
          total_deductions = 1574, net_salary = 64387 / 3, monthly_ctc = 75034 / 3\<rparr>"
  by code_simp

lemma calculate_salary_600000:
  "calculate_salary 600000 40 50 True True ''Karnataka'' =
     Inr \<lparr>basic = 20000, hra = 10000, special_allowance = 18200,
          gross_salary = 48200, employer_pf = 1800, employer_esi = 0,
          employee_pf = 1800, employee_esi = 0, professional_tax = 200, tds = 0,
          total_deductions = 2000, net_salary = 46200, monthly_ctc = 50000\<rparr>"
  by code_simp

subsection \<open>Worked inputs in binary64 arithmetic\<close>

text \<open>
  The first entry of \<^verbatim>\<open>TEST_CASES\<close> again: every amount is a whole number and the two
  arithmetics agree.
\<close>

lemma calculate_salary_binary64_300000:
  "calculate_salary_binary64 (PyInt 300000) (PyInt 40) (PyInt 50) True True ''Karnataka'' =
     Inr \<lparr>basic = 10000, hra = 5000, special_allowance = 8026, gross_salary = 23026,
          employer_pf = 1200, employer_esi = 774, employee_pf = 1200, employee_esi = 173,
          professional_tax = 200, tds = 0, total_deductions = 1573, net_salary = 21453,
          monthly_ctc = 25000\<rparr>"
  by code_simp

text \<open>
  An annual CTC of 100,000, where the monthly CTC is not a double, and one of 525,020 with
  percentages 30 and 60, where basic plus HRA is exactly 21,000.
\<close>

lemma calculate_salary_binary64_100000:
  "calculate_salary_binary64 (PyInt 100000) (PyInt 40) (PyInt 50) True True ''Karnataka'' =
     Inr \<lparr>basic = 3333, hra = 1666,
          special_allowance = 1471329809902251 / 549755813888,
          gross_salary = 4219559123528363 / 549755813888, employer_pf = 400,
          employer_esi = 258, employee_pf = 400, employee_esi = 58,
          professional_tax = 0, tds = 0, total_deductions = 458,
          net_salary = 3967770960767659 / 549755813888,
          monthly_ctc = 4581298449066667 / 549755813888\<rparr>"
  by code_simp

lemma calculate_salary_binary64_525020:
  "calculate_salary_binary64 (PyInt 525020) (PyInt 30) (PyInt 60) True True ''Karnataka'' =
     Inr \<lparr>basic = 13125, hra = 7875,
          special_allowance = 2722070099481941 / 137438953472,
          gross_salary = 5608288122393941 / 137438953472, employer_pf = 1575,
          employer_esi = 1371, employee_pf = 1575, employee_esi = 306,
          professional_tax = 200, tds = 0, total_deductions = 2081,
          net_salary = 5322277660218709 / 137438953472,
          monthly_ctc = 6013183279322453 / 137438953472\<rparr>"
  by code_simp

text \<open>
  An input on which the two arithmetics part: the product of the monthly CTC, 27,470, and
  0.55 is 15,108.5 exactly and the double just above it in binary64.
\<close>

lemma calculate_salary_329640:
  "calculate_salary 329640 55 39 True True ''Karnataka'' =
     Inr \<lparr>basic = 15108, hra = 5892, special_allowance = 3836, gross_salary = 24836,
          employer_pf = 1800, employer_esi = 834, employee_pf = 1800, employee_esi = 186,
          professional_tax = 200, tds = 0, total_deductions = 2186, net_salary = 22650,
          monthly_ctc = 27470\<rparr>"
  by code_simp

lemma calculate_salary_binary64_329640:
  "calculate_salary_binary64 (PyInt 329640) (PyInt 55) (PyInt 39) True True ''Karnataka'' =
     Inr \<lparr>basic = 15109, hra = 5893, special_allowance = 4668, gross_salary = 25670,
          employer_pf = 1800, employer_esi = 0, employee_pf = 1800, employee_esi = 0,
          professional_tax = 200, tds = 0, total_deductions = 2000, net_salary = 23670,
          monthly_ctc = 27470\<rparr>"
  by code_simp

subsection \<open>Professional Tax slabs\<close>




subsection \<open>Whole numbers\<close>

lemma not_whole: "of_int \<lfloor>x\<rfloor> \<noteq> x \<Longrightarrow> x \<notin> \<int>"
  by (auto elim: Ints_cases)

lemma fractions_not_whole:
  "(1471329809902251 / 549755813888 :: rat) \<notin> \<int>"
  "(4219559123528363 / 549755813888 :: rat) \<notin> \<int>"
  "(3967770960767659 / 549755813888 :: rat) \<notin> \<int>"
  by (rule not_whole, code_simp)+

subsection \<open>Balance equations\<close>

text \<open>
  C1. For every input the output satisfies the three balance equations exactly:
  gross salary is basic plus HRA plus special allowance, net salary is gross salary minus
  total deductions, and total deductions is employee PF plus employee ESI plus
  professional tax plus TDS, where TDS is always 0.
\<close>

theorem balance_equations:
  "\<exists>out. calculate_salary a bp hp pf pt st = Inr out
     \<and> gross_salary out = of_int (basic out) + of_int (hra out) + special_allowance out
     \<and> net_salary out = gross_salary out - of_int (total_deductions out)
     \<and> total_deductions out
         = employee_pf out + employee_esi out + professional_tax out + tds out
     \<and> tds out = 0"
proof -
  obtain out where out: "calculate_salary a bp hp pf pt st = Inr out"
    using calculate_salary_returns by blast
  from calculate_salary_fields(7,11,12,13) [OF out] out show ?thesis
    by blast
qed

theorem balance_equations_witness:
  "\<exists>out. calculate_salary 300000 40 50 True True ''Karnataka'' = Inr out
     \<and> gross_salary out = 10000 + 5000 + 8026
     \<and> net_salary out = 23026 - 1573
     \<and> total_deductions out = 1200 + 173 + 200 + 0"
  using balance_equations [of 300000 40 50 True True "''Karnataka''"]
  by (simp add: calculate_salary_300000)

subsection \<open>The two passes\<close>



subsection \<open>ESI eligibility\<close>

text \<open>
  C3. For every input ESI eligibility is decided once, by comparing the preliminary gross
  basic plus HRA with the ceiling of 21,000. Basic and HRA are rounded from the annual CTC
  and the two percentages only, whatever the PF and PT switches. The same decision governs
  employer ESI and employee ESI: when basic plus HRA is at most 21,000 employer ESI is
  \<^verbatim>\<open>round\<close> of the first-pass gross salary times 0.0325 and employee ESI is \<^verbatim>\<open>round\<close> of
  the final gross salary times 0.0075, the products being those of binary64 arithmetic;
  when basic plus HRA exceeds 21,000 both are 0, whatever side of the ceiling the final
  gross salary is on. The witness is an input whose preliminary gross is exactly 21,000
  and whose final gross salary is above 40,000, where ESI is charged.
\<close>

theorem esi_eligibility_locked:
  "\<exists>out. calculate_salary_binary64 a bp hp pf pt st = Inr out
     \<and> basic out
         = py_round_num (py_mul (py_truediv a (PyInt 12)) (py_truediv bp (PyInt 100)))
     \<and> hra out = py_round_num (py_mul (PyInt (basic out)) (py_truediv hp (PyInt 100)))
     \<and> employer_esi out
         = (if basic out + hra out \<le> 21000
            then py_round_num
                   (py_mul (py_add (PyInt (basic out + hra out))
                              (py_sub (py_sub (py_sub (PyFloat (monthly_ctc out))
                                                 (PyInt (basic out))) (PyInt (hra out)))
                                 (PyInt (employer_pf out))))
                      (py_literal (325 / 10000)))
            else 0)
     \<and> employee_esi out
         = (if basic out + hra out \<le> 21000
            then py_round_num (py_mul (PyFloat (double (gross_salary out)))
                                 (py_literal (75 / 10000)))
            else 0)"
proof -
  obtain out where out: "calculate_salary_binary64 a bp hp pf pt st = Inr out"
    using calculate_salary_binary64_returns by blast
  note f = calculate_salary_binary64_fields [OF out]
  define s2 where "s2 = py_sub (py_sub (py_sub (py_sub (PyFloat (monthly_ctc out))
      (PyInt (basic out))) (PyInt (hra out))) (PyInt (employer_pf out)))
      (PyInt (employer_esi out))"
  define g where
    "g = py_add (PyInt (basic out + hra out)) (if num_value s2 < 0 then PyInt 0 else s2)"
  obtain t where t: "s2 = PyFloat t"
    by (simp add: s2_def py_sub_float_int)
  have "py_float g = double (num_value g)"
    unfolding g_def t by (rule py_float_gross)
  then have gf: "py_float g = double (gross_salary out)"
    using f(7) by (simp add: g_def s2_def)
  have f9: "employee_esi out
         = (if basic out + hra out \<le> ESI_GROSS_LIMIT
            then py_round_num (py_mul g (py_literal ESI_EMPLOYEE_RATE)) else 0)"
    using f(9) by (simp only: g_def s2_def)
  have m: "py_round_num (py_mul g (py_literal ESI_EMPLOYEE_RATE))
         = py_round_num (py_mul (PyFloat (double (gross_salary out)))
                           (py_literal (75 / 10000)))"
    by (simp only: py_mul_literal gf ESI_EMPLOYEE_RATE_def)
       (simp add: py_float_def double_idem)
  have e: "employee_esi out
         = (if basic out + hra out \<le> 21000
            then py_round_num (py_mul (PyFloat (double (gross_salary out)))
                                 (py_literal (75 / 10000)))
            else 0)"
    using f9 by (simp only: m ESI_GROSS_LIMIT_def)
  have e': "employer_esi out
         = (if basic out + hra out \<le> 21000
            then py_round_num
                   (py_mul (py_add (PyInt (basic out + hra out))
                              (py_sub (py_sub (py_sub (PyFloat (monthly_ctc out))
                                                 (PyInt (basic out))) (PyInt (hra out)))
                                 (PyInt (employer_pf out))))
                      (py_literal (325 / 10000)))
            else 0)"
    using f(5) by (simp add: ESI_GROSS_LIMIT_def ESI_EMPLOYER_RATE_def)
  show ?thesis
    apply (rule exI [of _ out])
    apply (intro conjI)
    apply (fact out f(2) f(3) e e')+
    done
qed

theorem esi_eligibility_locked_witness:
  "\<exists>out. calculate_salary_binary64 (PyInt 525020) (PyInt 30) (PyInt 60) True True ''Karnataka''
            = Inr out
     \<and> basic out = 13125 \<and> hra out = 7875 \<and> basic out + hra out \<le> 21000
     \<and> 21000 < gross_salary out
     \<and> employee_esi out
         = py_round_num (py_mul (PyFloat (double (gross_salary out))) (py_literal (75 / 10000)))
     \<and> employee_esi out = 306"
  using esi_eligibility_locked [of "PyInt 525020" "PyInt 30" "PyInt 60" True True "''Karnataka''"]
  by (simp add: calculate_salary_binary64_525020)

subsection \<open>Provident Fund cap and the two switches\<close>

text \<open>
  C4. With PF enabled, employee PF is the smaller of 1,800 and the rounding of 12 percent
  of the smaller of basic and 15,000, so it never exceeds 1,800 whatever the annual CTC.
  With PF disabled, employee PF and employer PF are both 0. With PT disabled,
  professional tax is 0.
\<close>

theorem pf_cap_and_switches:
  "\<exists>out. calculate_salary a bp hp pf pt st = Inr out
     \<and> (pf \<longrightarrow> employee_pf out
                 = min (py_round (of_int (min (basic out) 15000) * (12 / 100))) 1800
               \<and> employee_pf out \<le> 1800)
     \<and> (\<not> pf \<longrightarrow> employee_pf out = 0 \<and> employer_pf out = 0)
     \<and> (\<not> pt \<longrightarrow> professional_tax out = 0)"
proof -
  obtain out where out: "calculate_salary a bp hp pf pt st = Inr out"
    using calculate_salary_returns by blast
  from calculate_salary_fields(4,8,10) [OF out] out show ?thesis
    by (auto simp add: PF_BASIC_CAP_def PF_EMPLOYEE_RATE_def PF_MAX_EMPLOYEE_def
        intro!: exI [of _ out])
qed

theorem pf_cap_and_switches_witness:
  "(\<exists>out. calculate_salary 3000000 40 50 True True ''Karnataka'' = Inr out
      \<and> basic out = 100000
      \<and> employee_pf out = min (py_round (of_int (min (basic out) 15000) * (12 / 100))) 1800
      \<and> employee_pf out = 1800)
   \<and> (\<exists>out. calculate_salary 600000 40 50 False False ''Karnataka'' = Inr out
      \<and> employee_pf out = 0 \<and> employer_pf out = 0 \<and> professional_tax out = 0)"
  using pf_cap_and_switches [of 3000000 40 50 True True "''Karnataka''"]
    pf_cap_and_switches [of 600000 40 50 False False "''Karnataka''"]
  by (simp add: calculate_salary_3000000 calculate_salary_600000_off)

subsection \<open>The scenario of 300,000\<close>

text \<open>
  C8. For an annual CTC of 300,000 with every default (basic 40 percent, HRA 50 percent,
  PF and PT enabled, Karnataka) the output has basic 10,000, HRA 5,000 and employee PF
  1,200; ESI applies, the preliminary gross of 15,000 being at most the ceiling of 21,000,
  so employee ESI is positive; and professional tax is 200.
\<close>

theorem scenario_300000:
  "\<exists>out. calculate_salary 300000 40 50 True True ''Karnataka'' = Inr out
     \<and> basic out = 10000 \<and> hra out = 5000 \<and> employee_pf out = 1200
     \<and> basic out + hra out = 15000 \<and> basic out + hra out \<le> ESI_GROSS_LIMIT
     \<and> ESI_GROSS_LIMIT = 21000
     \<and> 0 < employee_esi out \<and> professional_tax out = 200"
  by (simp add: calculate_salary_300000 ESI_GROSS_LIMIT_def)

subsection \<open>Unknown jurisdictions\<close>

text \<open>
  C9. For every state outside Karnataka, Maharashtra, Tamil Nadu, Gujarat and Delhi the
  Professional Tax lookup does not raise: the call returns, and the whole output equals
  the output of the same input with state Karnataka.
\<close>

theorem unknown_state_falls_back:
  "st \<notin> {''Karnataka'', ''Maharashtra'', ''Tamil Nadu'', ''Gujarat'', ''Delhi''} \<Longrightarrow>
     (\<exists>out. calculate_salary a bp hp pf pt st = Inr out)
     \<and> calculate_salary a bp hp pf pt st = calculate_salary a bp hp pf pt ''Karnataka''"
proof -
  assume "st \<notin> {''Karnataka'', ''Maharashtra'', ''Tamil Nadu'', ''Gujarat'', ''Delhi''}"
  then have "PT_RATES st = None"
    by (simp add: PT_RATES_def)
  then have "dict_get PT_RATES st pt_karnataka = dict_get PT_RATES ''Karnataka'' pt_karnataka"
    by (simp add: dict_get_def PT_RATES_def)
  then have "calculate_salary a bp hp pf pt st = calculate_salary a bp hp pf pt ''Karnataka''"
    by (simp add: calculate_salary_def dict_index_Karnataka)
  with calculate_salary_returns [of a bp hp pf pt st] show ?thesis
    by simp
qed

theorem unknown_state_falls_back_witness:
  "''Kerala'' \<notin> {''Karnataka'', ''Maharashtra'', ''Tamil Nadu'', ''Gujarat'', ''Delhi''}
   \<and> (\<exists>out. calculate_salary 300000 40 50 True True ''Kerala'' = Inr out)
   \<and> calculate_salary 300000 40 50 True True ''Kerala''
       = calculate_salary 300000 40 50 True True ''Karnataka''"
proof -
  have h: "''Kerala'' \<notin> {''Karnataka'', ''Maharashtra'', ''Tamil Nadu'', ''Gujarat'', ''Delhi''}"
    by simp
  from unknown_state_falls_back [OF h, of 300000 40 50 True True] h show ?thesis
    by blast
qed

subsection \<open>Conservation of the monthly CTC\<close>



subsection \<open>Non-negative special allowance and net salary\<close>




subsection \<open>Which fields are rounded\<close>

text \<open>
  C6, as stated, fails: the claim has every monetary field of the output a whole number.
  At an annual CTC of 100,000 with the defaults, the special allowance, the gross salary
  and the net salary are the doubles nearest to 2676.33, 7675.33 and 7217.33, none of them
  whole.
\<close>

theorem unrounded_fields_counterexample:
  "map_sum id special_allowance
     (calculate_salary_binary64 (PyInt 100000) (PyInt 40) (PyInt 50) True True ''Karnataka'')
     = Inr (1471329809902251 / 549755813888)
   \<and> map_sum id gross_salary
     (calculate_salary_binary64 (PyInt 100000) (PyInt 40) (PyInt 50) True True ''Karnataka'')
     = Inr (4219559123528363 / 549755813888)
   \<and> map_sum id net_salary
     (calculate_salary_binary64 (PyInt 100000) (PyInt 40) (PyInt 50) True True ''Karnataka'')
     = Inr (3967770960767659 / 549755813888)
   \<and> (1471329809902251 / 549755813888 :: rat) \<notin> \<int>
   \<and> (4219559123528363 / 549755813888 :: rat) \<notin> \<int>
   \<and> (3967770960767659 / 549755813888 :: rat) \<notin> \<int>"
  by (simp add: calculate_salary_binary64_100000 fractions_not_whole)

text \<open>
  C6, amended. Basic, HRA, employer PF, employee PF, employer ESI and employee ESI are each
  \<^verbatim>\<open>round\<close> of a product, taken as soon as the product is computed, and so whole numbers
  (professional tax, TDS and total deductions are whole numbers too). Monthly CTC is the
  double nearest to the annual CTC divided by 12, unrounded. Special allowance, gross
  salary and net salary are not rounded: they come from the monthly CTC by float
  subtraction and addition of the whole amounts, the special allowance being floored at
  zero. They are whole numbers when the special allowance was floored or the monthly CTC is
  itself whole, and need not be otherwise.
\<close>

theorem rounding_of_fields:
  "\<exists>out. calculate_salary_binary64 a bp hp pf pt st = Inr out
     \<and> PyFloat (monthly_ctc out) = py_truediv a (PyInt 12)
     \<and> basic out
         = py_round_num (py_mul (PyFloat (monthly_ctc out)) (py_truediv bp (PyInt 100)))
     \<and> hra out = py_round_num (py_mul (PyInt (basic out)) (py_truediv hp (PyInt 100)))
     \<and> employer_pf out
         = (if pf then py_round_num
                         (py_mul (PyInt (min (basic out) 15000))
                            (py_add (py_literal (367 / 10000)) (py_literal (833 / 10000))))
            else 0)
     \<and> employee_pf out
         = (if pf then min (py_round_num (py_mul (PyInt (min (basic out) 15000))
                                            (py_literal (12 / 100)))) 1800
            else 0)
     \<and> employer_esi out
         = (if basic out + hra out \<le> 21000
            then py_round_num
                   (py_mul (py_add (PyInt (basic out + hra out))
                              (py_sub (py_sub (py_sub (PyFloat (monthly_ctc out))
                                                 (PyInt (basic out))) (PyInt (hra out)))
                                 (PyInt (employer_pf out))))
                      (py_literal (325 / 10000)))
            else 0)
     \<and> employee_esi out
         = (if basic out + hra out \<le> 21000
            then py_round_num (py_mul (PyFloat (double (gross_salary out)))
                                 (py_literal (75 / 10000)))
            else 0)
     \<and> (let s2 = num_value
                    (py_sub (py_sub (py_sub (py_sub (PyFloat (monthly_ctc out))
                                               (PyInt (basic out))) (PyInt (hra out)))
                               (PyInt (employer_pf out))) (PyInt (employer_esi out)))
         in special_allowance out = (if s2 < 0 then 0 else s2)
            \<and> gross_salary out
                = (if s2 < 0 then of_int (basic out + hra out)
                   else double (double (of_int (basic out + hra out)) + s2))
            \<and> net_salary out
                = (if s2 < 0 then gross_salary out - of_int (total_deductions out)
                   else double (gross_salary out - double (of_int (total_deductions out))))
            \<and> (s2 < 0 \<or> monthly_ctc out \<in> \<int>
                 \<longrightarrow> special_allowance out \<in> \<int> \<and> gross_salary out \<in> \<int>
                     \<and> net_salary out \<in> \<int>))"
proof -
  obtain out where out: "calculate_salary_binary64 a bp hp pf pt st = Inr out"
    using calculate_salary_binary64_returns by blast
  note f = calculate_salary_binary64_fields [OF out]
  define s2 where "s2 = py_sub (py_sub (py_sub (py_sub (PyFloat (monthly_ctc out))
      (PyInt (basic out))) (PyInt (hra out))) (PyInt (employer_pf out)))
      (PyInt (employer_esi out))"
  define g where
    "g = py_add (PyInt (basic out + hra out)) (if num_value s2 < 0 then PyInt 0 else s2)"
  define t where "t = num_value s2"
  have s2: "s2 = PyFloat t"
    by (simp add: t_def s2_def py_sub_float_int num_value_def)
  have tv: "t = double (double (double (double (monthly_ctc out - double (of_int (basic out)))
                 - double (of_int (hra out))) - double (of_int (employer_pf out)))
               - double (of_int (employer_esi out)))"
    by (simp add: t_def s2_def py_sub_float_int num_value_def)
  have t_whole: "t \<in> \<int>" if "monthly_ctc out \<in> \<int>"
    unfolding tv using that by (intro double_Ints Ints_diff Ints_of_int)
  have g: "g = (if t < 0 then PyInt (basic out + hra out)
                else PyFloat (double (double (of_int (basic out + hra out)) + t)))"
    by (simp add: g_def s2 num_value_def py_add_int_int py_add_int_float)
  have sp: "special_allowance out = (if t < 0 then 0 else t)"
    using f(6) by (simp only: t_def s2_def)
  have gr: "gross_salary out
      = (if t < 0 then of_int (basic out + hra out)
         else double (double (of_int (basic out + hra out)) + t))"
    using f(7) unfolding g_def [symmetric] s2_def [symmetric] by (simp add: g num_value_def)
  have "net_salary out = num_value (py_sub g (PyInt (total_deductions out)))"
    using f(13) by (simp only: g_def s2_def)
  then have ne: "net_salary out
      = (if t < 0 then gross_salary out - of_int (total_deductions out)
         else double (gross_salary out - double (of_int (total_deductions out))))"
    by (simp add: g gr num_value_def py_sub_int_int py_sub_float_int)
  have whole: "special_allowance out \<in> \<int> \<and> gross_salary out \<in> \<int> \<and> net_salary out \<in> \<int>"
    if "t < 0 \<or> monthly_ctc out \<in> \<int>"
  proof (cases "t < 0")
    case True
    then show ?thesis by (simp add: sp gr ne)
  next
    case False
    with that have "t \<in> \<int>" using t_whole by blast
    then have a: "special_allowance out \<in> \<int>" using False by (simp add: sp)
    have b: "gross_salary out \<in> \<int>"
      unfolding gr using False \<open>t \<in> \<int>\<close>
      by (simp add: double_Ints Ints_add del: of_int_add)
    have "net_salary out \<in> \<int>"
      unfolding ne using False b
      by (simp add: double_Ints Ints_diff)
    with a b show ?thesis by blast
  qed
  have e1: "basic out
         = py_round_num (py_mul (PyFloat (monthly_ctc out)) (py_truediv bp (PyInt 100)))"
    using f(2) by (simp only: f(1))
  have e3: "employer_pf out
         = (if pf then py_round_num
                         (py_mul (PyInt (min (basic out) 15000))
                            (py_add (py_literal (367 / 10000)) (py_literal (833 / 10000))))
            else 0)"
    using f(4) by (simp add: PF_BASIC_CAP_def PF_EMPLOYER_EPF_RATE_def PF_EMPLOYER_EPS_RATE_def)
  have e4: "employee_pf out
         = (if pf then min (py_round_num (py_mul (PyInt (min (basic out) 15000))
                                            (py_literal (12 / 100)))) 1800
            else 0)"
    using f(8) by (simp add: PF_BASIC_CAP_def PF_EMPLOYEE_RATE_def PF_MAX_EMPLOYEE_def)
  have e5: "employer_esi out
         = (if basic out + hra out \<le> 21000
            then py_round_num
                   (py_mul (py_add (PyInt (basic out + hra out))
                              (py_sub (py_sub (py_sub (PyFloat (monthly_ctc out))
                                                 (PyInt (basic out))) (PyInt (hra out)))
                                 (PyInt (employer_pf out))))
                      (py_literal (325 / 10000)))
            else 0)"
    using f(5) by (simp add: ESI_GROSS_LIMIT_def ESI_EMPLOYER_RATE_def)
  have gf: "py_float g = double (gross_salary out)"
    by (simp add: g gr py_float_def double_idem)
  have f9: "employee_esi out
         = (if basic out + hra out \<le> ESI_GROSS_LIMIT
            then py_round_num (py_mul g (py_literal ESI_EMPLOYEE_RATE)) else 0)"
    using f(9) by (simp only: g_def s2_def)
  have m: "py_round_num (py_mul g (py_literal ESI_EMPLOYEE_RATE))
         = py_round_num (py_mul (PyFloat (double (gross_salary out)))
                           (py_literal (75 / 10000)))"
    by (simp only: py_mul_literal gf ESI_EMPLOYEE_RATE_def)
       (simp add: py_float_def double_idem)
  have e6: "employee_esi out
         = (if basic out + hra out \<le> 21000
            then py_round_num (py_mul (PyFloat (double (gross_salary out)))
                                 (py_literal (75 / 10000)))
            else 0)"
    using f9 by (simp only: m ESI_GROSS_LIMIT_def)
  have l: "(let s2 = t
         in special_allowance out = (if s2 < 0 then 0 else s2)
            \<and> gross_salary out
                = (if s2 < 0 then of_int (basic out + hra out)
                   else double (double (of_int (basic out + hra out)) + s2))
            \<and> net_salary out
                = (if s2 < 0 then gross_salary out - of_int (total_deductions out)
                   else double (gross_salary out - double (of_int (total_deductions out))))
            \<and> (s2 < 0 \<or> monthly_ctc out \<in> \<int>
                 \<longrightarrow> special_allowance out \<in> \<int> \<and> gross_salary out \<in> \<int>
                     \<and> net_salary out \<in> \<int>))"
    unfolding Let_def using sp gr ne whole by blast
  show ?thesis
    apply (rule exI [of _ out])
    apply (intro conjI)
    apply (fact out f(1) f(3) e1 e3 e4 e5 e6 l [unfolded t_def s2_def])+
    done
qed

theorem rounding_of_fields_witness:
  "\<exists>out. calculate_salary_binary64 (PyInt 300000) (PyInt 40) (PyInt 50) True True ''Karnataka''
            = Inr out
     \<and> monthly_ctc out \<in> \<int>
     \<and> special_allowance out \<in> \<int> \<and> gross_salary out \<in> \<int> \<and> net_salary out \<in> \<int>"
  using rounding_of_fields [of "PyInt 300000" "PyInt 40" "PyInt 50" True True "''Karnataka''"]
  by (simp add: calculate_salary_binary64_300000)

subsection \<open>Monotonicity in the annual CTC\<close>

text \<open>
  C7, as stated, fails: the claim has gross salary never decrease when the annual CTC
  grows and everything else is held fixed. With the defaults, raising the annual CTC from
  300,134 to 300,136 moves basic from 10,004 to 10,005 and with it the rounded employer PF
  from 1,200 to 1,201, while the monthly CTC grows by one sixth only: gross salary falls
  from 138223/6 to 69109/3.
\<close>

theorem gross_salary_monotone_counterexample:
  "(300134 :: rat) < 300136
   \<and> map_sum id gross_salary (calculate_salary 300134 40 50 True True ''Karnataka'')
       = Inr (138223 / 6)
   \<and> map_sum id gross_salary (calculate_salary 300136 40 50 True True ''Karnataka'')
       = Inr (69109 / 3)
   \<and> (69109 / 3 :: rat) < 138223 / 6"
  by (simp add: calculate_salary_300134 calculate_salary_300136)

text \<open>
  What holds instead rests on three facts. When basic grows by \<open>k\<close>, the rounded
  employer PF grows by at most one unit more than the monthly CTC did. Employer ESI,
  a rounded fraction of the first-pass gross, can take back at most one unit. And the
  gross salary is the larger of basic plus HRA and the monthly CTC less the two employer
  contributions.
\<close>

lemma pf_step:
  fixes b1 b2 :: int and r d :: rat
  assumes b: "b1 \<le> b2" and r: "0 \<le> r" "r \<le> 1 / 2"
    and d: "0 \<le> d" "of_int (b2 - b1) \<le> d + 1"
  shows "rat_of_int (py_round (of_int (min b2 15000) * r))
           - of_int (py_round (of_int (min b1 15000) * r)) \<le> d + 1"
proof -
  define k where "k = min b2 15000 - min b1 15000"
  define e2 where "e2 = py_round (of_int (min b2 15000) * r)"
  define e1 where "e1 = py_round (of_int (min b1 15000) * r)"
  have k: "0 \<le> k" "k \<le> b2 - b1"
    using b by (auto simp add: k_def)
  have "rat_of_int e2 - of_int e1
          \<le> of_int (min b2 15000) * r - of_int (min b1 15000) * r + 1"
    unfolding e1_def e2_def by (rule py_round_diff_le)
  also have "\<dots> = of_int k * r + 1"
    by (simp add: algebra_simps k_def)
  finally have e: "rat_of_int e2 - of_int e1 \<le> of_int k * r + 1" .
  have "rat_of_int e2 - of_int e1 \<le> d + 1"
  proof (cases "k \<le> 1")
    case True
    then have "rat_of_int k \<le> 1" by linarith
    moreover have "0 \<le> rat_of_int k" using k(1) by linarith
    ultimately have "rat_of_int k * r \<le> 1 * (1 / 2)"
      using r by (intro mult_mono) auto
    with e have "rat_of_int e2 - of_int e1 < 2" by linarith
    then have "rat_of_int (e2 - e1) < of_int 2" by simp
    then have "e2 - e1 < 2" by (simp only: of_int_less_iff)
    then have "e2 - e1 \<le> 1" by linarith
    then have "rat_of_int (e2 - e1) \<le> of_int 1" by (simp only: of_int_le_iff)
    with d(1) show ?thesis by simp
  next
    case False
    then have "2 \<le> k" by linarith
    then have k2: "2 \<le> rat_of_int k" by linarith
    then have "rat_of_int k * r \<le> of_int k * (1 / 2)"
      using r by (intro mult_left_mono) auto
    with k2 have "rat_of_int k * r + 1 \<le> of_int k" by linarith
    also have "\<dots> \<le> of_int (b2 - b1)" using k(2) by linarith
    finally show ?thesis using e d(2) by linarith
  qed
  then show ?thesis by (simp add: e1_def e2_def)
qed

lemma esi_step:
  fixes x1 x2 c :: rat
  assumes c: "0 \<le> c" "c \<le> 1" and x: "x1 - 1 \<le> x2"
  shows "x1 - of_int (py_round (x1 * c)) - 1 \<le> x2 - of_int (py_round (x2 * c))"
proof (cases "x1 \<le> x2")
  case True
  have "rat_of_int (py_round (x2 * c)) - of_int (py_round (x1 * c)) \<le> x2 * c - x1 * c + 1"
    by (rule py_round_diff_le)
  moreover have "(x2 - x1) * c \<le> (x2 - x1) * 1"
    using True c by (intro mult_left_mono) auto
  ultimately show ?thesis by (simp add: algebra_simps)
next
  case False
  then have "x2 * c \<le> x1 * c"
    using c by (intro mult_right_mono) auto
  then have "py_round (x2 * c) \<le> py_round (x1 * c)"
    by (rule py_round_mono)
  then have "rat_of_int (py_round (x2 * c)) \<le> of_int (py_round (x1 * c))"
    by linarith
  with x show ?thesis by linarith
qed

lemma esi_sign:
  fixes x c :: rat
  assumes c: "0 \<le> c" "c \<le> 1 / 2" and h: "0 \<le> x - of_int (py_round (x * c))"
  shows "0 \<le> py_round (x * c)"
proof (cases "0 \<le> x")
  case True
  with c show ?thesis by (intro py_round_nonneg) auto
next
  case False
  then have xc: "x * (1 / 2) \<le> x * c"
    using c by (intro mult_left_mono_neg) auto
  show ?thesis
  proof (cases "x < - 1")
    case True
    have "x * c - 1 / 2 \<le> of_int (py_round (x * c))"
      by (rule py_round_lower)
    with xc True h show ?thesis by linarith
  next
    case False
    with xc have "- (1 / 2) \<le> x * c" by linarith
    from py_round_mono [OF this] show ?thesis
      by (simp add: py_round_neg_half)
  qed
qed

lemma gross_salary_as_max:
  assumes "calculate_salary a bp hp pf pt st = Inr out"
  shows "gross_salary out
           = max (of_int (basic out + hra out))
                 (a / 12 - of_int (employer_pf out) - of_int (employer_esi out))"
  using calculate_salary_fields(6,7) [OF assms]
  by (simp add: max_def)

lemma employer_esi_of_pass1:
  assumes "calculate_salary a bp hp pf pt st = Inr out"
  shows "employer_esi out
           = (if basic out + hra out \<le> 21000
              then py_round ((a / 12 - of_int (employer_pf out)) * ESI_EMPLOYER_RATE) else 0)"
  using calculate_salary_fields(5) [OF assms]
  by (simp add: ESI_GROSS_LIMIT_def)

lemma gross_salary_steps:
  assumes out1: "calculate_salary a1 bp hp pf pt st = Inr out1"
    and out2: "calculate_salary a2 bp hp pf pt st = Inr out2"
    and a: "0 \<le> a1" "a1 \<le> a2" and bp: "0 \<le> bp" "bp \<le> 100" and hp: "0 \<le> hp"
  shows "gross_salary out1 - 1 \<le> gross_salary out2"
    and "21000 < basic out1 + hra out1 \<Longrightarrow> (pf \<Longrightarrow> 15000 \<le> basic out1)
           \<Longrightarrow> gross_salary out1 \<le> gross_salary out2"
proof -
  note f1 = calculate_salary_fields [OF out1] and f2 = calculate_salary_fields [OF out2]
  define m1 m2 d where "m1 = a1 / 12" and "m2 = a2 / 12" and "d = m2 - m1"
  define b1 b2 where "b1 = basic out1" and "b2 = basic out2"
  define B1 B2 where "B1 = basic out1 + hra out1" and "B2 = basic out2 + hra out2"
  define e1 e2 where "e1 = employer_pf out1" and "e2 = employer_pf out2"
  define s1 s2 where "s1 = employer_esi out1" and "s2 = employer_esi out2"
  define x1 x2 where "x1 = m1 - of_int e1" and "x2 = m2 - of_int e2"
  define c where "c = ESI_EMPLOYER_RATE"
  have c: "0 \<le> c" "c \<le> 1 / 2" "c \<le> 1"
    by (simp_all add: c_def ESI_EMPLOYER_RATE_def)
  have m: "0 \<le> m1" "m1 \<le> m2" "0 \<le> d"
    using a by (simp_all add: m1_def m2_def d_def)
  have q: "0 \<le> bp / 100" "bp / 100 \<le> 1"
    using bp by simp_all
  have arg: "m1 * (bp / 100) \<le> m2 * (bp / 100)"
    using m(2) q(1) by (rule mult_right_mono)
  have b12: "b1 \<le> b2"
    unfolding b1_def b2_def f1(2) f2(2) using arg
    by (intro py_round_mono) (simp add: m1_def m2_def)
  have b1_0: "0 \<le> b1"
    unfolding b1_def f1(2) using a(1) bp(1) by (intro py_round_nonneg) simp
  have h12: "hra out1 \<le> hra out2"
    unfolding f1(3) f2(3) using b12 hp
    by (intro py_round_mono mult_right_mono) (simp_all add: b1_def b2_def)
  have h1_0: "0 \<le> hra out1"
    unfolding f1(3) using b1_0 hp by (intro py_round_nonneg) (simp add: b1_def)
  have B12: "B1 \<le> B2"
    using b12 h12 by (simp add: B1_def B2_def b1_def b2_def)
  have B1_0: "0 \<le> B1"
    using b1_0 h1_0 by (simp add: B1_def b1_def)
  have "rat_of_int b2 - of_int b1 \<le> m2 * (bp / 100) - m1 * (bp / 100) + 1"
    unfolding b1_def b2_def f1(2) f2(2) m1_def m2_def by (rule py_round_diff_le)
  also have "\<dots> = d * (bp / 100) + 1"
    by (simp only: d_def left_diff_distrib)
  also have "\<dots> \<le> d * 1 + 1"
    using m(3) q(2) by (intro add_right_mono mult_left_mono)
  finally have bd: "rat_of_int (b2 - b1) \<le> d + 1"
    by simp
  have ed: "rat_of_int e2 - of_int e1 \<le> d + 1"
  proof (cases pf)
    case True
    have r: "0 \<le> PF_EMPLOYER_EPF_RATE + PF_EMPLOYER_EPS_RATE"
      "PF_EMPLOYER_EPF_RATE + PF_EMPLOYER_EPS_RATE \<le> 1 / 2"
      by (simp_all add: PF_EMPLOYER_EPF_RATE_def PF_EMPLOYER_EPS_RATE_def)
    from pf_step [OF b12 r m(3) bd] True show ?thesis
      by (simp add: e1_def e2_def f1(4) f2(4) PF_BASIC_CAP_def b1_def b2_def)
  next
    case False
    with m(3) show ?thesis by (simp add: e1_def e2_def f1(4) f2(4))
  qed
  have "x2 - x1 = d - (of_int e2 - of_int e1)"
    by (simp add: x1_def x2_def d_def)
  with ed have xs: "x1 - 1 \<le> x2"
    by linarith
  have g1: "gross_salary out1 = max (of_int B1) (x1 - of_int s1)"
    using gross_salary_as_max [OF out1] by (simp add: B1_def x1_def m1_def e1_def s1_def)
  have g2: "gross_salary out2 = max (of_int B2) (x2 - of_int s2)"
    using gross_salary_as_max [OF out2] by (simp add: B2_def x2_def m2_def e2_def s2_def)
  have s1: "s1 = (if B1 \<le> 21000 then py_round (x1 * c) else 0)"
    using employer_esi_of_pass1 [OF out1] by (simp add: B1_def x1_def m1_def e1_def s1_def c_def)
  have s2: "s2 = (if B2 \<le> 21000 then py_round (x2 * c) else 0)"
    using employer_esi_of_pass1 [OF out2] by (simp add: B2_def x2_def m2_def e2_def s2_def c_def)
  have Bq: "rat_of_int B1 \<le> of_int B2"
    using B12 by linarith
  have H: "x1 - of_int s1 - 1 \<le> x2 - of_int s2" if big: "rat_of_int B1 \<le> x1 - of_int s1"
  proof (cases "B2 \<le> 21000")
    case True
    with B12 have "B1 \<le> 21000" by linarith
    with True s1 s2 esi_step [OF c(1,3) xs] show ?thesis by simp
  next
    case False
    then have s2_0: "s2 = 0" by (simp add: s2)
    have "0 \<le> s1"
    proof (cases "B1 \<le> 21000")
      case True
      from big B1_0 have "0 \<le> x1 - rat_of_int s1" by linarith
      with True have "0 \<le> x1 - rat_of_int (py_round (x1 * c))" by (simp add: s1)
      from esi_sign [OF c(1,2) this] True show ?thesis by (simp add: s1)
    next
      case False
      then show ?thesis by (simp add: s1)
    qed
    then have "0 \<le> rat_of_int s1" by linarith
    with xs s2_0 show ?thesis by simp
  qed
  show "gross_salary out1 - 1 \<le> gross_salary out2"
  proof (cases "rat_of_int B1 \<le> x1 - of_int s1")
    case True
    from H [OF True] True show ?thesis
      unfolding g1 g2 by (simp add: max_def split: if_splits)
  next
    case False
    with Bq show ?thesis
      unfolding g1 g2 by (simp add: max_def split: if_splits)
  qed
  show "gross_salary out1 \<le> gross_salary out2"
    if above: "21000 < basic out1 + hra out1" and cap: "pf \<Longrightarrow> 15000 \<le> basic out1"
  proof -
    from above B12 have "\<not> B1 \<le> 21000" "\<not> B2 \<le> 21000"
      by (simp_all add: B1_def)
    then have z: "s1 = 0" "s2 = 0"
      by (simp_all add: s1 s2)
    have "e1 = e2"
    proof (cases pf)
      case True
      from cap [OF True] b12 have "min b1 15000 = 15000" "min b2 15000 = 15000"
        by (simp_all add: b1_def)
      with True show ?thesis
        by (simp add: e1_def e2_def f1(4) f2(4) PF_BASIC_CAP_def b1_def b2_def)
    next
      case False
      then show ?thesis by (simp add: e1_def e2_def f1(4) f2(4))
    qed
    with m(2) have "x1 \<le> x2"
      by (simp add: x1_def x2_def)
    with Bq z show ?thesis
      unfolding g1 g2 by (simp add: max_def split: if_splits)
  qed
qed

text \<open>
  C7, amended. For every pair of inputs that agree on basicPercent, hraPercent, pfEnabled,
  ptEnabled and state, with basicPercent between 0 and 100, hraPercent non-negative and
  0 \<open>\<le>\<close> annualCTC1 \<open>\<le>\<close> annualCTC2, the gross salary of the second is never more than one
  currency unit below the gross salary of the first; and it is not below it at all when,
  for the first input, ESI does not apply (basic plus HRA above 21,000) and PF is disabled
  or its base is capped (basic at least 15,000).
\<close>

theorem gross_salary_monotone_up_to_rounding:
  "0 \<le> a1 \<and> a1 \<le> a2 \<and> 0 \<le> bp \<and> bp \<le> 100 \<and> 0 \<le> hp \<longrightarrow>
     (\<exists>out1 out2.
        calculate_salary a1 bp hp pf pt st = Inr out1
        \<and> calculate_salary a2 bp hp pf pt st = Inr out2
        \<and> gross_salary out1 - 1 \<le> gross_salary out2
        \<and> (21000 < basic out1 + hra out1 \<and> (pf \<longrightarrow> 15000 \<le> basic out1)
             \<longrightarrow> gross_salary out1 \<le> gross_salary out2))"
proof
  assume h: "0 \<le> a1 \<and> a1 \<le> a2 \<and> 0 \<le> bp \<and> bp \<le> 100 \<and> 0 \<le> hp"
  obtain out1 where out1: "calculate_salary a1 bp hp pf pt st = Inr out1"
    using calculate_salary_returns by blast
  obtain out2 where out2: "calculate_salary a2 bp hp pf pt st = Inr out2"
    using calculate_salary_returns by blast
  from h have a: "0 \<le> a1" "a1 \<le> a2" and bp: "0 \<le> bp" "bp \<le> 100" and hp: "0 \<le> hp"
    by simp_all
  note steps = gross_salary_steps [OF out1 out2 a bp hp]
  have "gross_salary out1 - 1 \<le> gross_salary out2"
    by (rule steps(1))
  moreover have "21000 < basic out1 + hra out1 \<and> (pf \<longrightarrow> 15000 \<le> basic out1)
      \<longrightarrow> gross_salary out1 \<le> gross_salary out2"
    using steps(2) by blast
  ultimately show "\<exists>out1 out2.
        calculate_salary a1 bp hp pf pt st = Inr out1
        \<and> calculate_salary a2 bp hp pf pt st = Inr out2
        \<and> gross_salary out1 - 1 \<le> gross_salary out2
        \<and> (21000 < basic out1 + hra out1 \<and> (pf \<longrightarrow> 15000 \<le> basic out1)
             \<longrightarrow> gross_salary out1 \<le> gross_salary out2)"
    using out1 out2 by blast
qed

theorem gross_salary_monotone_up_to_rounding_witness:
  "((0 :: rat) \<le> 300134 \<and> (300134 :: rat) \<le> 300136 \<and> (0 :: rat) \<le> 40 \<and> (40 :: rat) \<le> 100
      \<and> (0 :: rat) \<le> 50)
   \<and> (\<exists>out1 out2.
        calculate_salary 300134 40 50 True True ''Karnataka'' = Inr out1
        \<and> calculate_salary 300136 40 50 True True ''Karnataka'' = Inr out2
        \<and> gross_salary out1 - 1 \<le> gross_salary out2)
   \<and> ((0 :: rat) \<le> 600000 \<and> (600000 :: rat) \<le> 3000000)
   \<and> (\<exists>out1 out2.
        calculate_salary 600000 40 50 True True ''Karnataka'' = Inr out1
        \<and> calculate_salary 3000000 40 50 True True ''Karnataka'' = Inr out2
        \<and> 21000 < basic out1 + hra out1 \<and> 15000 \<le> basic out1
        \<and> gross_salary out1 \<le> gross_salary out2)"
  using gross_salary_monotone_up_to_rounding [of 300134 300136 40 50 True True "''Karnataka''"]
    gross_salary_monotone_up_to_rounding [of 600000 3000000 40 50 True True "''Karnataka''"]
  by (simp add: calculate_salary_300134 calculate_salary_300136 calculate_salary_600000
      calculate_salary_3000000)

subsection \<open>Deductions, switches, fallback and monotonicity in binary64 arithmetic\<close>

text \<open>
  What the sections above establish about the deductions, the PF and PT switches and the
  fallback for unknown jurisdictions does not depend on the arithmetic: the binary64
  calculator has the same properties.
\<close>

lemma binary64_deductions:
  "\<exists>out. calculate_salary_binary64 a bp hp pf pt st = Inr out
     \<and> 0 \<le> special_allowance out
     \<and> total_deductions out
         = employee_pf out + employee_esi out + professional_tax out + tds out
     \<and> tds out = 0"
proof -
  obtain out where out: "calculate_salary_binary64 a bp hp pf pt st = Inr out"
    using calculate_salary_binary64_returns by blast
  note f = calculate_salary_binary64_fields [OF out]
  have "0 \<le> special_allowance out"
    unfolding f(6) by simp
  with out f(11) f(12) show ?thesis
    by blast
qed

lemma binary64_pf_cap_and_switches:
  "\<exists>out. calculate_salary_binary64 a bp hp pf pt st = Inr out
     \<and> (pf \<longrightarrow> employee_pf out
                 = min (py_round_num (py_mul (PyInt (min (basic out) 15000))
                                         (py_literal (12 / 100)))) 1800
               \<and> employee_pf out \<le> 1800)
     \<and> (\<not> pf \<longrightarrow> employee_pf out = 0 \<and> employer_pf out = 0)
     \<and> (\<not> pt \<longrightarrow> professional_tax out = 0)"
proof -
  obtain out where out: "calculate_salary_binary64 a bp hp pf pt st = Inr out"
    using calculate_salary_binary64_returns by blast
  note f = calculate_salary_binary64_fields [OF out]
  have a: "pf \<longrightarrow> employee_pf out
                 = min (py_round_num (py_mul (PyInt (min (basic out) 15000))
                                         (py_literal (12 / 100)))) 1800
               \<and> employee_pf out \<le> 1800"
    unfolding f(8) by (simp add: PF_BASIC_CAP_def PF_EMPLOYEE_RATE_def PF_MAX_EMPLOYEE_def)
  have b: "\<not> pf \<longrightarrow> employee_pf out = 0 \<and> employer_pf out = 0"
    unfolding f(4) f(8) by simp
  have c: "\<not> pt \<longrightarrow> professional_tax out = 0"
    unfolding f(10) by simp
  from out a b c show ?thesis
    by blast
qed

lemma binary64_unknown_state_falls_back:
  assumes "st \<notin> {''Karnataka'', ''Maharashtra'', ''Tamil Nadu'', ''Gujarat'', ''Delhi''}"
  shows "calculate_salary_binary64 a bp hp pf pt st
       = calculate_salary_binary64 a bp hp pf pt ''Karnataka''"
proof -
  from assms have "PT_RATES st = None"
    by (simp add: PT_RATES_def)
  then have h: "dict_get PT_RATES st pt_karnataka = dict_get PT_RATES ''Karnataka'' pt_karnataka"
    by (simp add: dict_get_def PT_RATES_def)
  show ?thesis
    by (simp only: calculate_salary_binary64_def dict_index_Karnataka sum.case h)
qed

text \<open>
  The two neighbouring inputs of the section on monotonicity, in binary64 arithmetic: the
  gross salary falls there as well, from 23,037.17 to 23,036.33.
\<close>

lemma calculate_salary_binary64_300134:
  "calculate_salary_binary64 (PyInt 300134) (PyInt 40) (PyInt 50) True True ''Karnataka'' =
     Inr \<lparr>basic = 10004, hra = 5002,
          special_allowance = 2207590283651755 / 274877906944,
          gross_salary = 6332408155253419 / 274877906944, employer_pf = 1200,
          employer_esi = 774, employee_pf = 1200, employee_esi = 173,
          professional_tax = 200, tds = 0, total_deductions = 1573,
          net_salary = 5900025207630507 / 274877906944,
          monthly_ctc = 6875017143560875 / 274877906944\<rparr>"
  by code_simp

lemma calculate_salary_binary64_300136:
  "calculate_salary_binary64 (PyInt 300136) (PyInt 40) (PyInt 50) True True ''Karnataka'' =
     Inr \<lparr>basic = 10005, hra = 5002,
          special_allowance = 2207086340822357 / 274877906944,
          gross_salary = 6332179090330965 / 274877906944, employer_pf = 1201,
          employer_esi = 774, employee_pf = 1201, employee_esi = 173,
          professional_tax = 200, tds = 0, total_deductions = 1574,
          net_salary = 5899521264801109 / 274877906944,
          monthly_ctc = 6875062956545365 / 274877906944\<rparr>"
  by code_simp

lemma binary64_gross_salary_decreases:
  "map_sum id gross_salary
     (calculate_salary_binary64 (PyInt 300134) (PyInt 40) (PyInt 50) True True ''Karnataka'')
     = Inr (6332408155253419 / 274877906944)
   \<and> map_sum id gross_salary
     (calculate_salary_binary64 (PyInt 300136) (PyInt 40) (PyInt 50) True True ''Karnataka'')
     = Inr (6332179090330965 / 274877906944)
   \<and> (6332179090330965 / 274877906944 :: rat) < 6332408155253419 / 274877906944"
  by (simp add: calculate_salary_binary64_300134 calculate_salary_binary64_300136)

end
